theory Spec2Isabelle
  imports Main
begin

section \<open>Views: lib/runtime/procs/view.js\<close>

text \<open>
  A program owns the channel counter \<open>program.channels\<close> and the event bus
  \<open>program.events\<close>. The bus is modelled by the list of what has been emitted on it, oldest
  first. The counter is a JavaScript number that is only ever incremented by one; it is
  modelled as a natural number (exact below \<open>2^53\<close>).
\<close>

datatype ('t, 'p) payload =
    Channel_time string 't           \<comment> \<open>\<open>{channel: c, time: t}\<close>\<close>
  | Channel_only string              \<comment> \<open>\<open>{channel: c}\<close>\<close>
  | Channel_points string "'p list"  \<comment> \<open>\<open>{channel: c, points: ps}\<close>\<close>

datatype ('t, 'p) effect =
    Emit string "('t, 'p) payload"   \<comment> \<open>\<open>program.events.emit(name, payload)\<close>\<close>
  | Done string                      \<comment> \<open>\<open>this.done()\<close> of the view on that channel\<close>

record ('t, 'p) program =
  channels :: nat
  events :: "('t, 'p) effect list"

record view =
  name :: string
  channel :: string

text \<open>
  \<open>'view' + n\<close> concatenates the decimal representation of the number \<open>n\<close>.
\<close>

definition digit_char :: "nat \<Rightarrow> char" where
  "digit_char d = char_of (48 + d)"

fun string_of_nat :: "nat \<Rightarrow> string" where
  "string_of_nat n =
     (if n < 10 then [digit_char n]
      else string_of_nat (n div 10) @ [digit_char (n mod 10)])"

declare string_of_nat.simps [simp del]

text \<open>Reading a decimal numeral back; used to show that \<open>string_of_nat\<close> is injective.\<close>

definition nat_of_string :: "string \<Rightarrow> nat" where
  "nat_of_string s = foldl (\<lambda>a c. 10 * a + (of_char c - 48)) 0 s"

text \<open>
  \<open>initialize: function(options, params, location, program)\<close>:
  \<open>this.name = params.name; this.channel = 'view' + (program.channels++);\<close>
  The post-increment yields the old value of the counter.
\<close>

definition initialize :: "string \<Rightarrow> ('t, 'p) program \<Rightarrow> view \<times> ('t, 'p) program" where
  "initialize params_name prog =
     (\<lparr>name = params_name, channel = ''view'' @ string_of_nat (channels prog)\<rparr>,
      prog\<lparr>channels := channels prog + 1\<rparr>)"

text \<open>Constructing one view per given name, in order, in the same program.\<close>

fun construct_views :: "string list \<Rightarrow> ('t, 'p) program \<Rightarrow> view list \<times> ('t, 'p) program" where
  "construct_views [] prog = ([], prog)"
| "construct_views (n # ns) prog =
     (let (v, prog') = initialize n prog;
          (vs, prog'') = construct_views ns prog'
      in (v # vs, prog''))"

definition emit :: "string \<Rightarrow> ('t, 'p) payload \<Rightarrow> ('t, 'p) program \<Rightarrow> ('t, 'p) program" where
  "emit ev pl prog = prog\<lparr>events := events prog @ [Emit ev pl]\<rparr>"

text \<open>
  \<open>this.done()\<close> is the sink's terminal completion; sink.js is not part of the sources at
  hand, so the call is recorded on the same log, which keeps its position relative to
  the emissions (\<open>done\<close> is a reserved word of the proof language, hence the name
  \<open>sink_done\<close>).
\<close>

definition sink_done :: "view \<Rightarrow> ('t, 'p) program \<Rightarrow> ('t, 'p) program" where
  "sink_done v prog = prog\<lparr>events := events prog @ [Done (channel v)]\<rparr>"

definition mark :: "view \<Rightarrow> 't \<Rightarrow> ('t, 'p) program \<Rightarrow> ('t, 'p) program" where
  "mark v time prog = emit ''view:mark'' (Channel_time (channel v) time) prog"

definition tick :: "view \<Rightarrow> 't \<Rightarrow> ('t, 'p) program \<Rightarrow> ('t, 'p) program" where
  "tick v time prog = emit ''view:tick'' (Channel_time (channel v) time) prog"

definition eof :: "view \<Rightarrow> ('t, 'p) program \<Rightarrow> ('t, 'p) program" where
  "eof v prog = sink_done v (emit ''view:eof'' (Channel_only (channel v)) prog)"

definition process :: "view \<Rightarrow> 'p list \<Rightarrow> ('t, 'p) program \<Rightarrow> ('t, 'p) program" where
  "process v pts prog = emit ''view:points'' (Channel_points (channel v) pts) prog"

section \<open>The http_server read adapter: class ReadHTTPServer\<close>

subsection \<open>Options, errors and what the adapter takes from elsewhere\<close>

text \<open>
  The options of the proc as the constructor reads them. \<open>None\<close> is an absent option.
  \<open>every\<close> is a duration, of which only \<open>milliseconds()\<close> is used; the remaining allowed
  options (\<open>rootPath\<close>, \<open>separator\<close>, \<open>commentSymbol\<close>, \<open>ignoreEmptyLines\<close>,
  \<open>allowIncompleteLines\<close>) are only handed on to the parser.
\<close>

record options =
  opt_port :: "nat option"
  opt_method :: "string option"
  opt_timeField :: "string option"
  opt_every :: "nat option"
  opt_parser :: "(string \<times> string) list"

record 'f params =
  filter_ast :: "'f option"

record juttle_error =
  code :: string
  message :: string
  info :: "(string \<times> string) list"

text \<open>What a parser hands to its callback: one parsed object or an array of them.\<close>

datatype 'p parsed = Single 'p | Array "'p list"

text \<open>
  The parts the adapter uses and that are not among the sources at hand are parameters:
  the message text of an error (the string table), the parser
  \<open>parsers.getParser(format, parserOptions).parseStream(req, callback)\<close>, given by the
  payloads it hands to the callback, in order, and the error it finally rejects with, if
  any; \<open>parseTime\<close> of the base class AdapterRead; and the check that the HTTP server
  makes of a status text when it writes the head of a response.
\<close>

record ('b, 'p) env =
  error_message :: "string \<Rightarrow> (string \<times> string) list \<Rightarrow> string"
  parseStream :: "string \<Rightarrow> options \<Rightarrow> 'b \<Rightarrow> 'p parsed list \<times> juttle_error option"
  parseTime :: "'p list \<Rightarrow> string option \<Rightarrow> 'p list"
  legal_status_text :: "string \<Rightarrow> bool"

text \<open>
  Modelled from the spec: \<open>compileError\<close> and \<open>runtimeError\<close> of the base class, which
  are not among the sources at hand. Each error carries the stable code it was raised
  with and its structured context.
\<close>

definition compileError ::
  "('b, 'p) env \<Rightarrow> string \<Rightarrow> (string \<times> string) list \<Rightarrow> juttle_error" where
  "compileError env c ctx = \<lparr>code = c, message = error_message env c ctx, info = ctx\<rparr>"

definition runtimeError ::
  "('b, 'p) env \<Rightarrow> string \<Rightarrow> (string \<times> string) list \<Rightarrow> juttle_error" where
  "runtimeError env c ctx = \<lparr>code = c, message = error_message env c ctx, info = ctx\<rparr>"

subsection \<open>The adapter object and its surroundings\<close>

datatype 'p read_result =
    Points_result "'p list"   \<comment> \<open>\<open>{points: [...]}\<close>\<close>
  | Empty_result              \<comment> \<open>\<open>{}\<close>\<close>

text \<open>
  The promise that \<open>read\<close> returns on an empty buffer,
  \<open>new Promise(...).timeout(readEvery).catch(Promise.TimeoutError, ...)\<close>: it waits
  until its deadline on the clock and is settled once, by whichever comes first of the
  stored \<open>resolve\<close> and the timer.
\<close>

datatype 'p promise = Waiting nat | Fulfilled "'p read_result"

datatype 'p read_return = Returned "'p read_result" | Promise nat

datatype server_state = Listening | Closing | Closed

text \<open>
  The fields of \<open>this\<close>, then what surrounds the object: the promises handed out by
  \<open>read\<close> (\<open>pendingRead\<close> holds the index of the promise its \<open>resolve\<close> belongs to), the
  clock in milliseconds, the calls of \<open>this.trigger\<close>, the promises handed out by
  \<open>teardown\<close> (\<open>True\<close> once resolved), and the exceptions that left the handler of a
  request.
\<close>

record 'p adapter =
  port :: nat
  http_method :: string  \<comment> \<open>\<open>this.method\<close>\<close>
  timeField :: "string option"
  readEvery :: nat
  parserOptions :: options
  points :: "'p list"
  pendingRead :: "nat option"
  pendingReadLimit :: "int option"
  server :: "server_state option"
  promises :: "'p promise list"
  clock :: nat
  triggered :: "(string \<times> juttle_error) list"
  teardowns :: "bool list"
  unhandled :: "string list"

text \<open>JavaScript truthiness of an optional string and of an optional number.\<close>

definition truthy_string :: "string option \<Rightarrow> bool" where
  "truthy_string v = (case v of None \<Rightarrow> False | Some s \<Rightarrow> s \<noteq> [])"

definition truthy_number :: "nat option \<Rightarrow> bool" where
  "truthy_number v = (case v of None \<Rightarrow> False | Some n \<Rightarrow> n \<noteq> 0)"

text \<open>
  The constructor. \<open>super(options, params)\<close> is taken to return. A \<open>throw\<close> is the
  \<open>Inl\<close> result; the checks are in the order of the source.
\<close>

definition ReadHTTPServer ::
  "('b, 'p) env \<Rightarrow> options \<Rightarrow> 'f params \<Rightarrow> juttle_error + 'p adapter" where
  "ReadHTTPServer env opts params =
     (let allowed_methods = [''POST'', ''PUT''] in
      if truthy_string (opt_method opts) \<and> the (opt_method opts) \<notin> set allowed_methods
      then Inl (compileError env ''INVALID-OPTION-VALUE''
                  [(''option'', ''method''), (''supported'', ''POST, PUT'')])
      else if filter_ast params \<noteq> None
      then Inl (compileError env ''ADAPTER-UNSUPPORTED-FILTER''
                  [(''proc'', ''read http_server''), (''filter'', ''filtering'')])
      else Inr \<lparr>port = (if truthy_number (opt_port opts) then the (opt_port opts) else 8080),
                http_method =
                  (if truthy_string (opt_method opts) then the (opt_method opts) else ''POST''),
                timeField = opt_timeField opts,
                readEvery = (case opt_every opts of Some ms \<Rightarrow> ms | None \<Rightarrow> 50),
                parserOptions = opts,
                points = [],
                pendingRead = None,
                pendingReadLimit = None,
                server = None,
                promises = [],
                clock = 0,
                triggered = [],
                teardowns = [],
                unhandled = []\<rparr>)"

text \<open>\<open>start\<close> creates the server, whose request handler is \<open>handle_request\<close> below.\<close>

definition start :: "'p adapter \<Rightarrow> 'p adapter" where
  "start s = s\<lparr>server := Some Listening\<rparr>"

subsection \<open>Reading\<close>

text \<open>
  \<open>this.points.splice(0, limit)\<close>: the number of elements removed is the limit clamped
  to between 0 and the length; an \<open>undefined\<close> limit counts as 0. The result is the
  removed elements and what stays in the array.
\<close>

definition splice0 :: "int option \<Rightarrow> 'a list \<Rightarrow> 'a list \<times> 'a list" where
  "splice0 limit xs =
     (let k = (case limit of
                 None \<Rightarrow> 0
               | Some l \<Rightarrow> nat (min (max l 0) (int (length xs))))
      in (take k xs, drop k xs))"

definition readResult :: "int option \<Rightarrow> 'p adapter \<Rightarrow> 'p read_result \<times> 'p adapter" where
  "readResult limit s =
     (let (removed, rest) = splice0 limit (points s)
      in (Points_result removed, s\<lparr>points := rest\<rparr>))"

text \<open>
  \<open>.timeout(this.readEvery)\<close> hands the number to the timer of the runtime, which waits
  that many milliseconds when the number is between 1 and \<open>2^31 - 1\<close>, and 1 millisecond
  otherwise.
\<close>

definition timer_delay :: "nat \<Rightarrow> nat" where
  "timer_delay ms = (if 1 \<le> ms \<and> ms \<le> 2147483647 then ms else 1)"

text \<open>
  \<open>read(from, to, limit, state)\<close>; \<open>from\<close>, \<open>to\<close> and \<open>state\<close> are not used by the
  source.
\<close>

definition read :: "int \<Rightarrow> 'p adapter \<Rightarrow> 'p read_return \<times> 'p adapter" where
  "read limit s =
     (if length (points s) > 0
      then (let (res, s') = readResult (Some limit) s in (Returned res, s'))
      else (Promise (length (promises s)),
            s\<lparr>pendingRead := Some (length (promises s)),
              pendingReadLimit := Some limit,
              promises := promises s @ [Waiting (clock s + timer_delay (readEvery s))]\<rparr>))"

text \<open>Calling a stored \<open>resolve\<close>: it settles its promise if that is still waiting.\<close>

definition resolve :: "nat \<Rightarrow> 'p read_result \<Rightarrow> 'p adapter \<Rightarrow> 'p adapter" where
  "resolve r v s =
     (if r < length (promises s)
      then (case promises s ! r of
              Waiting deadline \<Rightarrow> s\<lparr>promises := (promises s)[r := Fulfilled v]\<rparr>
            | Fulfilled w \<Rightarrow> s)
      else s)"


text \<open>
  Time passing: the clock advances by \<open>d\<close> milliseconds, and every promise still
  waiting at its deadline is settled by its timer with \<open>{}\<close>.
\<close>

definition expire :: "nat \<Rightarrow> 'p promise \<Rightarrow> 'p promise" where
  "expire t p = (case p of
                   Waiting deadline \<Rightarrow> if deadline \<le> t then Fulfilled Empty_result else p
                 | Fulfilled v \<Rightarrow> p)"

definition elapse :: "nat \<Rightarrow> 'p adapter \<Rightarrow> 'p adapter" where
  "elapse d s = s\<lparr>clock := clock s + d, promises := map (expire (clock s + d)) (promises s)\<rparr>"

subsection \<open>The request handler\<close>

record 'b request =
  req_method :: string
  req_content_type :: "string option"
    \<comment> \<open>the media type \<open>contentType.parse(req).type\<close>; \<open>None\<close> when \<open>parse\<close> throws\<close>
  req_body :: 'b

record response =
  statusCode :: nat
  statusMessage :: "string option"
  body :: string
  ended :: bool

text \<open>A fresh response of the HTTP server: status 200, no status text, nothing written.\<close>

definition new_response :: response where
  "new_response = \<lparr>statusCode = 200, statusMessage = None, body = [], ended = False\<rparr>"

text \<open>\<open>str.split('/')\<close>, and element 1 of the result (\<open>undefined\<close> is \<open>None\<close>).\<close>

fun split_slash :: "string \<Rightarrow> string list" where
  "split_slash [] = [[]]"
| "split_slash (c # cs) =
     (if c = CHR ''/'' then [] # split_slash cs
      else (case split_slash cs of
              [] \<Rightarrow> [[c]]
            | w # ws \<Rightarrow> (c # w) # ws))"

definition format_of :: "'b request \<Rightarrow> string option" where
  "format_of req =
     (case req_content_type req of
        None \<Rightarrow> None
      | Some ty \<Rightarrow> (case split_slash ty of
                     _ # f # _ \<Rightarrow> Some f
                   | _ \<Rightarrow> None))"

text \<open>\<open>if (!_.isArray(points)) { points = [points]; }\<close>\<close>

definition as_array :: "'p parsed \<Rightarrow> 'p list" where
  "as_array payload = (case payload of Array ps \<Rightarrow> ps | Single p \<Rightarrow> [p])"

text \<open>
  The callback given to \<open>parseStream\<close>. In
  \<open>this.pendingRead(this.readResult(this.pendingReadLimit))\<close> the argument is evaluated
  first, so the points are spliced out of the buffer before \<open>resolve\<close> is called.
\<close>

definition ingest :: "('b, 'p) env \<Rightarrow> 'p adapter \<Rightarrow> 'p parsed \<Rightarrow> 'p adapter" where
  "ingest env s payload =
     (let pts = as_array payload;
          pts' = parseTime env pts (timeField s);
          s1 = s\<lparr>points := points s @ pts'\<rparr>
      in case pendingRead s1 of
           None \<Rightarrow> s1
         | Some r \<Rightarrow> (let (res, s2) = readResult (pendingReadLimit s1) s1
                      in resolve r res s2))"

text \<open>
  The body of \<open>Promise.try\<close>: the error thrown or rejected with, if any, and the adapter
  after the callbacks that ran.
\<close>

definition try_request ::
  "('b, 'p) env \<Rightarrow> 'p adapter \<Rightarrow> 'b request \<Rightarrow> juttle_error option \<times> 'p adapter" where
  "try_request env s req =
     (if req_method req \<noteq> http_method s
      then (Some (runtimeError env ''INVALID-HTTP-METHOD'' [(''types'', ''POST'')]), s)
      else if format_of req \<noteq> Some ''json'' \<and> format_of req \<noteq> Some ''csv''
      then (Some (runtimeError env ''INVALID-TYPE'' [(''types'', ''csv, json'')]), s)
      else (let (payloads, failure) =
                  parseStream env (the (format_of req)) (parserOptions s) (req_body req)
            in (failure, foldl (ingest env) s payloads)))"

text \<open>
  Modelled from the spec: \<open>trigger\<close> of the base class, which is not among the sources at
  hand; it raises the named event with the error on the program's event bus.
\<close>

definition trigger :: "string \<Rightarrow> juttle_error \<Rightarrow> 'p adapter \<Rightarrow> 'p adapter" where
  "trigger ev err s = s\<lparr>triggered := triggered s @ [(ev, err)]\<rparr>"

text \<open>
  \<open>res.end()\<close> writes the head of the response with the status text set before. When
  that text has a character that is illegal in a status line it throws instead: nothing
  is sent, and the exception leaves the \<open>.catch\<close> handler as a rejection that nobody
  handles. \<open>this.trigger\<close> has been called by then.
\<close>

definition handleListenError ::
  "('b, 'p) env \<Rightarrow> response \<Rightarrow> juttle_error \<Rightarrow> 'p adapter \<Rightarrow> response \<times> 'p adapter" where
  "handleListenError env res err s =
     (let res1 = res\<lparr>statusMessage := Some (message err)\<rparr>;
          res2 = res1\<lparr>statusCode := 400\<rparr>;
          res3 = (if code err = ''INVALID-TYPE'' then res2\<lparr>statusCode := 415\<rparr>
                  else if code err = ''INVALID-HTTP-METHOD'' then res2\<lparr>statusCode := 404\<rparr>
                  else res2);
          s1 = trigger ''error'' err s
      in if legal_status_text env (message err)
         then (res3\<lparr>ended := True\<rparr>, s1)
         else (res3, s1\<lparr>unhandled := unhandled s1 @ [''ERR_INVALID_CHAR'']\<rparr>))"

definition handle_request ::
  "('b, 'p) env \<Rightarrow> 'p adapter \<Rightarrow> 'b request \<Rightarrow> response \<times> 'p adapter" where
  "handle_request env s req =
     (case try_request env s req of
        (None, s') \<Rightarrow> (new_response\<lparr>statusCode := 200, ended := True\<rparr>, s')
      | (Some err, s') \<Rightarrow> handleListenError env new_response err s')"

subsection \<open>Teardown\<close>

text \<open>
  \<open>teardown\<close> returns a new promise. With a server, \<open>server.close\<close> is called and the
  promise waits for the callback; without one it is resolved at once. The result is
  the index of the promise in \<open>teardowns\<close>.
\<close>

definition teardown :: "'p adapter \<Rightarrow> nat \<times> 'p adapter" where
  "teardown s =
     (case server s of
        Some st \<Rightarrow> (length (teardowns s),
                    s\<lparr>server := Some Closing, teardowns := teardowns s @ [False]\<rparr>)
      | None \<Rightarrow> (length (teardowns s), s\<lparr>teardowns := teardowns s @ [True]\<rparr>))"

text \<open>
  The transport raising the server's close event: every callback given to
  \<open>server.close\<close> so far fires.
\<close>

definition close_fires :: "'p adapter \<Rightarrow> 'p adapter" where
  "close_fires s =
     (case server s of
        Some st \<Rightarrow> s\<lparr>server := Some Closed, teardowns := map (\<lambda>_. True) (teardowns s)\<rparr>
      | None \<Rightarrow> s)"

text \<open>
  What can happen to a constructed adapter, one event at a time. A request is handled in
  one step: the callbacks of its parser run with no other event in between.
\<close>

datatype ('b, 'p) event =
    Ev_start
  | Ev_request "'b request"
  | Ev_read int
  | Ev_elapse nat
  | Ev_teardown
  | Ev_close_fires

fun step :: "('b, 'p) env \<Rightarrow> 'p adapter \<Rightarrow> ('b, 'p) event \<Rightarrow> 'p adapter" where
  "step env s Ev_start = start s"
| "step env s (Ev_request req) = snd (handle_request env s req)"
| "step env s (Ev_read limit) = snd (read limit s)"
| "step env s (Ev_elapse d) = elapse d s"
| "step env s Ev_teardown = snd (teardown s)"
| "step env s Ev_close_fires = close_fires s"

definition run :: "('b, 'p) env \<Rightarrow> 'p adapter \<Rightarrow> ('b, 'p) event list \<Rightarrow> 'p adapter" where
  "run env s evs = foldl (step env) s evs"



section \<open>Running a program from the command line: perform_run\<close>

text \<open>
  A promise as seen at the end of time: resolved, rejected with an error (given by its
  message), or never settled.
\<close>

datatype 'a outcome = Resolved 'a | Rejected string | Unsettled

definition then_promise :: "'a outcome \<Rightarrow> ('a \<Rightarrow> 'b outcome) \<Rightarrow> 'b outcome" where
  "then_promise p f = (case p of
                         Resolved v \<Rightarrow> f v
                       | Rejected e \<Rightarrow> Rejected e
                       | Unsettled \<Rightarrow> Unsettled)"

text \<open>
  \<open>p.finally(handler)\<close>, with the handler given by the outcome of what it returns: it
  runs once \<open>p\<close> is settled, and the result is that of \<open>p\<close> unless the handler's own
  promise rejects.
\<close>

definition finally_promise :: "'a outcome \<Rightarrow> unit outcome \<Rightarrow> 'a outcome" where
  "finally_promise p handler =
     (case p of
        Unsettled \<Rightarrow> Unsettled
      | _ \<Rightarrow> (case handler of
                Resolved _ \<Rightarrow> p
              | Rejected e \<Rightarrow> Rejected e
              | Unsettled \<Rightarrow> Unsettled))"

text \<open>
  What \<open>perform_run\<close> meets in one run: the outcome of compiling, whether setting up the
  views or \<open>program.activate()\<close> throws, the events raised on \<open>program.events\<close> and on
  \<open>view_mgr.events\<close> while the listeners of \<open>perform_run\<close> are attached, the outcomes of
  \<open>program.done()\<close> and of \<open>views_done\<close>, and whether \<open>program.deactivate()\<close> throws.
\<close>

record run_env =
  compiled :: "unit outcome"
  activate_throws :: "string option"
  program_events :: "(string \<times> juttle_error) list"
  view_mgr_events :: "(string \<times> juttle_error) list"
  program_done :: "unit outcome"
  views_done :: "unit outcome"
  deactivate_throws :: "string option"

text \<open>The flag the two \<open>'error'\<close> listeners set.\<close>

definition had_an_error :: "run_env \<Rightarrow> bool" where
  "had_an_error r =
     (''error'' \<in> set (map fst (program_events r)) \<or>
      ''error'' \<in> set (map fst (view_mgr_events r)))"

definition perform_run :: "run_env \<Rightarrow> unit outcome" where
  "perform_run r =
     then_promise (compiled r) (\<lambda>program.
       case activate_throws r of
         Some e \<Rightarrow> Rejected e
       | None \<Rightarrow>
           finally_promise
             (then_promise
               (then_promise
                 (then_promise (program_done r) (\<lambda>_. views_done r))
                 (\<lambda>_. Resolved ()))
               (\<lambda>_. case deactivate_throws r of
                      Some e \<Rightarrow> Rejected e
                    | None \<Rightarrow> Resolved ()))
             (if had_an_error r then Rejected ''Program terminated with errors''
              else Resolved ()))"

section \<open>Concrete values\<close>

text \<open>
  A small instance on which the theorems below are exercised: points are numbers, the
  body of a request is given directly by what the parser makes of it, error messages
  are the codes, and \<open>parseTime\<close> leaves the points as they are. A status text is legal
  when each of its characters is a tab, or is printable and not DEL.
\<close>

definition header_char_ok :: "char \<Rightarrow> bool" where
  "header_char_ok c =
     (let n = (of_char c :: nat) in n = 9 \<or> (32 \<le> n \<and> n \<le> 126) \<or> 128 \<le> n)"

definition sample_env :: "(nat parsed list \<times> juttle_error option, nat) env" where
  "sample_env = \<lparr>error_message = (\<lambda>c ctx. c),
                  parseStream = (\<lambda>fmt opts b. b),
                  parseTime = (\<lambda>pts tf. pts),
                  legal_status_text = list_all header_char_ok\<rparr>"

definition sample_options :: options where
  "sample_options = \<lparr>opt_port = None, opt_method = None, opt_timeField = None,
                      opt_every = None, opt_parser = []\<rparr>"

definition no_filter :: "unit params" where
  "no_filter = \<lparr>filter_ast = None\<rparr>"

text \<open>The adapter constructed from these, started, with the given points buffered.\<close>

definition sample_adapter :: "nat list \<Rightarrow> nat adapter" where
  "sample_adapter buffered =
     \<lparr>port = 8080, http_method = ''POST'', timeField = None, readEvery = 50,
      parserOptions = sample_options, points = buffered, pendingRead = None,
      pendingReadLimit = None, server = Some Listening, promises = [], clock = 0,
      triggered = [], teardowns = [], unhandled = []\<rparr>"

definition json_request ::
  "nat parsed list \<times> juttle_error option
     \<Rightarrow> (nat parsed list \<times> juttle_error option) request" where
  "json_request b =
     \<lparr>req_method = ''POST'', req_content_type = Some ''application/json'', req_body = b\<rparr>"

section \<open>Properties of views\<close>

lemma of_char_digit_char: "d < 10 \<Longrightarrow> of_char (digit_char d) - 48 = d"
  by (simp add: digit_char_def)

lemma nat_of_string_snoc:
  "nat_of_string (s @ [c]) = 10 * nat_of_string s + (of_char c - 48)"
  by (simp add: nat_of_string_def)

lemma nat_of_string_of_nat: "nat_of_string (string_of_nat n) = n"
proof (induction n rule: string_of_nat.induct)
  case (1 n)
  show ?case
  proof (cases "n < 10")
    case True
    then show ?thesis
      by (subst string_of_nat.simps) (simp add: nat_of_string_def of_char_digit_char)
  next
    case False
    have "nat_of_string (string_of_nat n)
        = nat_of_string (string_of_nat (n div 10) @ [digit_char (n mod 10)])"
      using False by (subst string_of_nat.simps) simp
    also have "\<dots> = 10 * (n div 10) + n mod 10"
      using 1 False by (simp add: nat_of_string_snoc of_char_digit_char)
    finally show ?thesis by simp
  qed
qed

lemma string_of_nat_inj: "string_of_nat m = string_of_nat n \<Longrightarrow> m = n"
  by (metis nat_of_string_of_nat)

lemma construct_views_channels:
  "map channel (fst (construct_views ns prog))
     = map (\<lambda>i. ''view'' @ string_of_nat (channels prog + i)) [0..<length ns]"
proof (induction ns arbitrary: prog)
  case Nil
  show ?case by simp
next
  case (Cons n ns)
  have "[0..<length (n # ns)] = 0 # map Suc [0..<length ns]"
    by (simp add: upt_conv_Cons map_Suc_upt del: upt_Suc)
  then show ?case
    using Cons.IH [of "snd (initialize n prog)"]
    by (simp add: initialize_def split_def Let_def comp_def del: upt_Suc)
qed

lemma construct_views_counter:
  "channels (snd (construct_views ns prog)) = channels prog + length ns"
  by (induction ns arbitrary: prog) (simp_all add: initialize_def split_def Let_def)

text \<open>
  C6. A view constructed in a program gets the channel \<open>'view'\<close> followed by the
  program's channel counter, and the counter goes up by one. So the views constructed
  one after the other in a program, starting with the counter at \<open>c\<close>, get the channels
  \<open>'view' + c\<close>, \<open>'view' + (c + 1)\<close>, ... in the order of construction, and no two of them
  get the same channel.
\<close>

theorem view_channels_distinct_in_order:
  "channel (fst (initialize nm prog)) = ''view'' @ string_of_nat (channels prog)
   \<and> channels (snd (initialize nm prog)) = channels prog + 1
   \<and> map channel (fst (construct_views ns prog))
       = map (\<lambda>i. ''view'' @ string_of_nat (channels prog + i)) [0..<length ns]
   \<and> channels (snd (construct_views ns prog)) = channels prog + length ns
   \<and> distinct (map channel (fst (construct_views ns prog)))"
proof -
  have "distinct (map (\<lambda>i. ''view'' @ string_of_nat (channels prog + i)) [0..<length ns])"
    by (auto simp add: distinct_map inj_on_def dest: string_of_nat_inj)
  then show ?thesis
    by (simp add: construct_views_channels construct_views_counter initialize_def)
qed

lemma string_of_nat_examples:
  "string_of_nat 9 = ''9''" "string_of_nat 10 = ''10''" "string_of_nat 11 = ''11''"
  by code_simp+

text \<open>Three views constructed with the counter at 9.\<close>

theorem view_channels_distinct_in_order_witness:
  "map channel (fst (construct_views [''table'', ''text'', ''file'']
       \<lparr>channels = 9, events = ([] :: (nat, nat) effect list)\<rparr>))
     = [''view9'', ''view10'', ''view11'']
   \<and> channels (snd (construct_views [''table'', ''text'', ''file'']
       \<lparr>channels = 9, events = ([] :: (nat, nat) effect list)\<rparr>)) = 12"
  using view_channels_distinct_in_order [of "''table''"
      "\<lparr>channels = 9, events = ([] :: (nat, nat) effect list)\<rparr>" "[''table'', ''text'', ''file'']"]
  by (simp add: upt_conv_Cons string_of_nat_examples)

text \<open>
  C7. Each signal a view receives adds exactly one event to the program's event bus,
  tagged with the view's own channel: \<open>mark(time)\<close> adds \<open>view:mark {channel, time}\<close>,
  \<open>tick(time)\<close> adds \<open>view:tick {channel, time}\<close>, \<open>process(points)\<close> adds
  \<open>view:points {channel, points}\<close>, and \<open>eof()\<close> adds \<open>view:eof {channel}\<close> and then calls
  the sink's \<open>done\<close>.
\<close>

theorem view_signals_emit:
  "events (mark v t prog) = events prog @ [Emit ''view:mark'' (Channel_time (channel v) t)]
   \<and> events (tick v t prog) = events prog @ [Emit ''view:tick'' (Channel_time (channel v) t)]
   \<and> events (process v pts prog)
       = events prog @ [Emit ''view:points'' (Channel_points (channel v) pts)]
   \<and> events (eof v prog)
       = events prog @ [Emit ''view:eof'' (Channel_only (channel v)), Done (channel v)]"
  by (simp add: mark_def tick_def process_def eof_def emit_def sink_done_def)

section \<open>Properties of the http_server adapter\<close>

subsection \<open>Rejected requests\<close>

lemma sample_formats:
  "format_of (json_request b) = Some ''json''"
  "format_of ((json_request b)\<lparr>req_content_type := Some ''text/xml''\<rparr>) = Some ''xml''"
  "format_of ((json_request b)\<lparr>req_content_type := None\<rparr>) = None"
  by (simp_all add: format_of_def json_request_def)

lemma json_request_fields:
  "req_method (json_request b) = ''POST''"
  "req_body (json_request b) = b"
  by (simp_all add: json_request_def)





subsection \<open>Reading\<close>

text \<open>
  C3. A \<open>read\<close> on a non-empty buffer returns at once, without a promise, the first
  \<open>min(limit, length of the buffer)\<close> buffered points in their order of arrival, and
  the buffer afterwards is the rest: exactly the returned points are removed.
\<close>

theorem read_nonempty_returns_prefix:
  assumes "points s \<noteq> []"
  shows "read limit s =
           (Returned (Points_result (take (nat (min limit (int (length (points s))))) (points s))),
            s\<lparr>points := drop (nat (min limit (int (length (points s))))) (points s)\<rparr>)"
proof -
  have k: "nat (min (max limit 0) (int (length (points s))))
             = nat (min limit (int (length (points s))))"
    by (simp add: min_def max_def)
  show ?thesis
    using assms by (simp add: read_def readResult_def splice0_def Let_def k)
qed

theorem read_nonempty_returns_prefix_witness:
  "points (sample_adapter [1, 2, 3]) \<noteq> []
   \<and> read 2 (sample_adapter [1, 2, 3])
       = (Returned (Points_result [1, 2]), (sample_adapter [1, 2, 3])\<lparr>points := [3]\<rparr>)"
proof -
  have h: "points (sample_adapter [1, 2, 3]) \<noteq> []"
    by (simp add: sample_adapter_def)
  have k: "nat (min 2 (int (length (points (sample_adapter [1, 2, 3]))))) = 2"
    by (simp add: sample_adapter_def)
  have t: "take 2 (points (sample_adapter [1, 2, 3])) = [1, 2]"
    "drop 2 (points (sample_adapter [1, 2, 3])) = [3]"
    by (simp_all add: sample_adapter_def)
  from read_nonempty_returns_prefix [OF h, of 2] h show ?thesis
    by (simp only: k t) simp
qed

subsection \<open>Accepted requests\<close>

lemma splice0_Some:
  "splice0 (Some l) xs = (take (nat l) xs, drop (nat l) xs)"
proof -
  have "nat (min (max l 0) (int (length xs))) = min (nat l) (length xs)"
    by linarith
  moreover have "take (min (nat l) (length xs)) xs = take (nat l) xs"
    "drop (min (nat l) (length xs)) xs = drop (nat l) xs"
    by (simp_all add: min_def)
  ultimately show ?thesis
    by (simp add: splice0_def)
qed

lemma resolve_fields [simp]:
  "points (resolve r v s) = points s"
  "timeField (resolve r v s) = timeField s"
  "pendingRead (resolve r v s) = pendingRead s"
  "pendingReadLimit (resolve r v s) = pendingReadLimit s"
  "triggered (resolve r v s) = triggered s"
  "teardowns (resolve r v s) = teardowns s"
  "server (resolve r v s) = server s"
  "clock (resolve r v s) = clock s"
  "length (promises (resolve r v s)) = length (promises s)"
  by (simp_all add: resolve_def split: promise.split)

lemma resolve_waiting:
  "r < length (promises s) \<Longrightarrow> promises s ! r = Waiting d
     \<Longrightarrow> promises (resolve r v s) ! r = Fulfilled v"
  by (simp add: resolve_def)


lemma ingest_fields [simp]:
  "timeField (ingest env s pl) = timeField s"
  "pendingRead (ingest env s pl) = pendingRead s"
  "pendingReadLimit (ingest env s pl) = pendingReadLimit s"
  "triggered (ingest env s pl) = triggered s"
  "teardowns (ingest env s pl) = teardowns s"
  "server (ingest env s pl) = server s"
  "clock (ingest env s pl) = clock s"
  "length (promises (ingest env s pl)) = length (promises s)"
  by (simp_all add: ingest_def readResult_def Let_def split_def split: option.split)



lemma ingest_resolves:
  "pendingRead s = Some r \<Longrightarrow> pendingReadLimit s = Some l
     \<Longrightarrow> r < length (promises s) \<Longrightarrow> promises s ! r = Waiting d
     \<Longrightarrow> promises (ingest env s pl) ! r
           = Fulfilled (Points_result
               (take (nat l) (points s @ parseTime env (as_array pl) (timeField s))))"
  by (simp add: ingest_def readResult_def splice0_Some Let_def resolve_waiting)


lemma foldl_ingest_fields [simp]:
  "timeField (foldl (ingest env) s pls) = timeField s"
  "pendingRead (foldl (ingest env) s pls) = pendingRead s"
  "pendingReadLimit (foldl (ingest env) s pls) = pendingReadLimit s"
  "triggered (foldl (ingest env) s pls) = triggered s"
  "teardowns (foldl (ingest env) s pls) = teardowns s"
  "server (foldl (ingest env) s pls) = server s"
  "clock (foldl (ingest env) s pls) = clock s"
  "length (promises (foldl (ingest env) s pls)) = length (promises s)"
  by (induction pls arbitrary: s) simp_all




lemma splice0_None: "splice0 None xs = ([], xs)"
  by (simp add: splice0_def)













subsection \<open>Reading from an empty buffer\<close>

lemma ingest_config [simp]:
  "http_method (ingest env s pl) = http_method s"
  "parserOptions (ingest env s pl) = parserOptions s"
  by (simp_all add: ingest_def readResult_def resolve_def Let_def split_def
        split: option.split promise.split)

lemma foldl_ingest_config [simp]:
  "http_method (foldl (ingest env) s pls) = http_method s"
  "parserOptions (foldl (ingest env) s pls) = parserOptions s"
  by (induction pls arbitrary: s) simp_all

















subsection \<open>Construction\<close>

text \<open>
  C5, as amended. Constructing the adapter with a non-empty \<open>method\<close> option that is
  neither POST nor PUT fails with the code INVALID-OPTION-VALUE. Constructing it with a
  filter expression always fails, and with the code ADAPTER-UNSUPPORTED-FILTER when the
  \<open>method\<close> option passes the first check (it is absent, empty, POST or PUT). Both are
  results of the constructor, so no adapter exists that could be read. Without a filter,
  and with the \<open>method\<close> option absent or empty, the adapter is constructed with method
  POST.
\<close>

theorem constructor_validation:
  "(opt_method opts = Some m \<and> m \<noteq> [] \<and> m \<noteq> ''POST'' \<and> m \<noteq> ''PUT'' \<longrightarrow>
      isl (ReadHTTPServer env opts params)
      \<and> code (projl (ReadHTTPServer env opts params)) = ''INVALID-OPTION-VALUE'')
   \<and> (filter_ast params \<noteq> None \<longrightarrow> isl (ReadHTTPServer env opts params))
   \<and> (filter_ast params \<noteq> None
        \<and> opt_method opts \<in> {None, Some [], Some ''POST'', Some ''PUT''} \<longrightarrow>
      code (projl (ReadHTTPServer env opts params)) = ''ADAPTER-UNSUPPORTED-FILTER'')
   \<and> (filter_ast params = None \<and> opt_method opts \<in> {None, Some []} \<longrightarrow>
      \<not> isl (ReadHTTPServer env opts params)
      \<and> http_method (projr (ReadHTTPServer env opts params)) = ''POST'')"
  by (auto simp add: ReadHTTPServer_def compileError_def truthy_string_def Let_def
        split: option.splits)

theorem constructor_validation_witness:
  "isl (ReadHTTPServer sample_env (sample_options\<lparr>opt_method := Some ''GET''\<rparr>) no_filter)
   \<and> code (projl (ReadHTTPServer sample_env (sample_options\<lparr>opt_method := Some ''GET''\<rparr>) no_filter))
       = ''INVALID-OPTION-VALUE''
   \<and> isl (ReadHTTPServer sample_env (sample_options\<lparr>opt_method := Some ''PUT''\<rparr>)
            \<lparr>filter_ast = Some ()\<rparr>)
   \<and> code (projl (ReadHTTPServer sample_env (sample_options\<lparr>opt_method := Some ''PUT''\<rparr>)
            \<lparr>filter_ast = Some ()\<rparr>)) = ''ADAPTER-UNSUPPORTED-FILTER''
   \<and> \<not> isl (ReadHTTPServer sample_env sample_options no_filter)
   \<and> http_method (projr (ReadHTTPServer sample_env sample_options no_filter)) = ''POST''"
proof -
  let ?get = "sample_options\<lparr>opt_method := Some ''GET''\<rparr>"
  let ?put = "sample_options\<lparr>opt_method := Some ''PUT''\<rparr>"
  let ?flt = "\<lparr>filter_ast = Some ()\<rparr>"
  have g: "opt_method ?get = Some ''GET'' \<and> ''GET'' \<noteq> [] \<and> ''GET'' \<noteq> ''POST'' \<and> ''GET'' \<noteq> ''PUT''"
    by simp
  have p: "filter_ast ?flt \<noteq> None"
    "filter_ast ?flt \<noteq> None \<and> opt_method ?put \<in> {None, Some [], Some ''POST'', Some ''PUT''}"
    by simp_all
  have n: "filter_ast no_filter = None \<and> opt_method sample_options \<in> {None, Some []}"
    by (simp add: no_filter_def sample_options_def)
  from constructor_validation [where opts = ?get and m = "''GET''" and env = sample_env
      and params = no_filter] g
  have 1: "isl (ReadHTTPServer sample_env ?get no_filter)
           \<and> code (projl (ReadHTTPServer sample_env ?get no_filter)) = ''INVALID-OPTION-VALUE''"
    by blast
  from constructor_validation [where opts = ?put and m = "''PUT''" and env = sample_env
      and params = ?flt] p
  have 2: "isl (ReadHTTPServer sample_env ?put ?flt)
           \<and> code (projl (ReadHTTPServer sample_env ?put ?flt)) = ''ADAPTER-UNSUPPORTED-FILTER''"
    by blast
  from constructor_validation [where opts = sample_options and m = "''''" and env = sample_env
      and params = no_filter] n
  have 3: "\<not> isl (ReadHTTPServer sample_env sample_options no_filter)
           \<and> http_method (projr (ReadHTTPServer sample_env sample_options no_filter)) = ''POST''"
    by blast
  from 1 2 3 show ?thesis by blast
qed

text \<open>
  C5 as stated fails for the empty string: it is a \<open>method\<close> option that is neither POST
  nor PUT, and the constructor does not throw but falls back to POST.
\<close>

theorem constructor_empty_method_counterexample:
  "opt_method (sample_options\<lparr>opt_method := Some ''''\<rparr>) = Some ''''
   \<and> '''' \<noteq> ''POST'' \<and> '''' \<noteq> ''PUT''
   \<and> \<not> isl (ReadHTTPServer sample_env (sample_options\<lparr>opt_method := Some ''''\<rparr>) no_filter)
   \<and> http_method (projr (ReadHTTPServer sample_env (sample_options\<lparr>opt_method := Some ''''\<rparr>)
        no_filter)) = ''POST''"
  by (simp add: ReadHTTPServer_def truthy_string_def sample_options_def no_filter_def)

subsection \<open>Teardown\<close>

lemma handle_request_fields [simp]:
  "teardowns (snd (handle_request env s req)) = teardowns s"
  "server (snd (handle_request env s req)) = server s"
  by (auto simp add: handle_request_def try_request_def handleListenError_def trigger_def
        Let_def split_def split: option.splits)

lemma read_fields [simp]:
  "teardowns (snd (read limit s)) = teardowns s"
  "server (snd (read limit s)) = server s"
  by (simp_all add: read_def readResult_def split_def Let_def)

lemma step_server: "server s \<noteq> None \<Longrightarrow> server (step env s e) \<noteq> None"
  by (cases e) (auto simp add: start_def elapse_def teardown_def close_fires_def
        split: option.splits)

lemma step_teardowns:
  assumes "i < length (teardowns s)"
  shows "i < length (teardowns (step env s e))
         \<and> (teardowns (step env s e) ! i
              \<longleftrightarrow> teardowns s ! i \<or> (e = Ev_close_fires \<and> server s \<noteq> None))"
  using assms
  by (cases e) (auto simp add: start_def elapse_def teardown_def close_fires_def nth_append
        split: option.splits)

lemma run_teardowns:
  assumes "i < length (teardowns s)" and "server s \<noteq> None"
  shows "teardowns (run env s evs) ! i \<longleftrightarrow> teardowns s ! i \<or> Ev_close_fires \<in> set evs"
  using assms
proof (induction evs arbitrary: s)
  case Nil
  then show ?case by (simp add: run_def)
next
  case (Cons e evs)
  have st: "i < length (teardowns (step env s e))" "server (step env s e) \<noteq> None"
    using Cons.prems step_teardowns [of i s env e] step_server [of s env e] by simp_all
  have "teardowns (run env s (e # evs)) ! i = teardowns (run env (step env s e) evs) ! i"
    by (simp add: run_def)
  also have "\<dots> \<longleftrightarrow> teardowns (step env s e) ! i \<or> Ev_close_fires \<in> set evs"
    using Cons.IH [OF st] .
  also have "\<dots> \<longleftrightarrow> teardowns s ! i \<or> Ev_close_fires \<in> set (e # evs)"
    using Cons.prems step_teardowns [of i s env e] by auto
  finally show ?case .
qed

lemma run_teardowns_stay:
  assumes "i < length (teardowns s)" and "teardowns s ! i"
  shows "i < length (teardowns (run env s evs)) \<and> teardowns (run env s evs) ! i"
  using assms
proof (induction evs arbitrary: s)
  case Nil
  then show ?case by (simp add: run_def)
next
  case (Cons e evs)
  have "i < length (teardowns (step env s e)) \<and> teardowns (step env s e) ! i"
    using Cons.prems step_teardowns [of i s env e] by simp
  then show ?case
    using Cons.IH [of "step env s e"] by (simp add: run_def)
qed

text \<open>
  C9. \<open>teardown\<close> returns a promise. When no server was started the promise is resolved
  at once, and stays so. When a server was started the promise is not resolved when
  \<open>teardown\<close> returns, and after any further events it is resolved exactly if the
  server's close callback has fired among them.
\<close>

theorem teardown_resolves_on_close:
  "(server s = None \<longrightarrow>
      teardowns (snd (teardown s)) ! fst (teardown s)
      \<and> teardowns (run env (snd (teardown s)) evs) ! fst (teardown s))
   \<and> (server s \<noteq> None \<longrightarrow>
      \<not> teardowns (snd (teardown s)) ! fst (teardown s)
      \<and> (teardowns (run env (snd (teardown s)) evs) ! fst (teardown s)
           \<longleftrightarrow> Ev_close_fires \<in> set evs))"
proof (cases "server s")
  case None
  have i: "fst (teardown s) < length (teardowns (snd (teardown s)))"
    "teardowns (snd (teardown s)) ! fst (teardown s)"
    using None by (simp_all add: teardown_def)
  from run_teardowns_stay [OF i, of env evs] i None show ?thesis by simp
next
  case (Some st)
  have i: "fst (teardown s) < length (teardowns (snd (teardown s)))"
    "server (snd (teardown s)) \<noteq> None"
    and f: "\<not> teardowns (snd (teardown s)) ! fst (teardown s)"
    using Some by (simp_all add: teardown_def)
  from run_teardowns [OF i, of env evs] f Some show ?thesis by simp
qed

theorem teardown_resolves_on_close_witness:
  "server ((sample_adapter [])\<lparr>server := None\<rparr>) = None
   \<and> teardowns (snd (teardown ((sample_adapter [])\<lparr>server := None\<rparr>))) ! 0
   \<and> server (sample_adapter []) \<noteq> None
   \<and> \<not> teardowns (run sample_env (snd (teardown (sample_adapter []))) [Ev_elapse 5, Ev_read 1]) ! 0
   \<and> teardowns (run sample_env (snd (teardown (sample_adapter [])))
        [Ev_elapse 5, Ev_close_fires, Ev_read 1]) ! 0"
proof -
  let ?n = "(sample_adapter [])\<lparr>server := None\<rparr>"
  let ?s = "sample_adapter []"
  have n: "server ?n = None" by simp
  have s: "server ?s \<noteq> None" by (simp add: sample_adapter_def)
  have i: "fst (teardown ?n) = 0" "fst (teardown ?s) = 0"
    by (simp_all add: teardown_def sample_adapter_def)
  have e: "Ev_close_fires \<notin> set [Ev_elapse 5, Ev_read 1 :: (nat parsed list \<times> juttle_error option, nat) event]"
    "Ev_close_fires \<in> set [Ev_elapse 5, Ev_close_fires, Ev_read 1 :: (nat parsed list \<times> juttle_error option, nat) event]"
    by simp_all
  from teardown_resolves_on_close [of ?n sample_env "[]"] n i
  have 1: "teardowns (snd (teardown ?n)) ! 0" by simp
  from teardown_resolves_on_close [of ?s sample_env "[Ev_elapse 5, Ev_read 1]"] s i e
  have 2: "\<not> teardowns (run sample_env (snd (teardown ?s)) [Ev_elapse 5, Ev_read 1]) ! 0"
    by simp
  from teardown_resolves_on_close [of ?s sample_env "[Ev_elapse 5, Ev_close_fires, Ev_read 1]"] s i e
  have 3: "teardowns (run sample_env (snd (teardown ?s)) [Ev_elapse 5, Ev_close_fires, Ev_read 1]) ! 0"
    by simp
  from n s 1 2 3 show ?thesis by blast
qed

subsection \<open>Errors and the outcome of a run\<close>

lemma perform_run_had_error:
  assumes "had_an_error r" and "compiled r = Resolved ()" and "activate_throws r = None"
    and "program_done r \<noteq> Unsettled"
    and "program_done r = Resolved () \<longrightarrow> views_done r \<noteq> Unsettled"
  shows "perform_run r = Rejected ''Program terminated with errors''"
  using assms
  by (cases "program_done r"; cases "views_done r"; cases "deactivate_throws r")
     (simp_all add: perform_run_def then_promise_def finally_promise_def)

lemma handle_request_failure:
  assumes "fst (try_request env s req) = Some err"
  shows "triggered (snd (handle_request env s req)) = triggered s @ [(''error'', err)]"
proof -
  have t: "triggered (snd (try_request env s req)) = triggered s"
    by (simp add: try_request_def split_def Let_def)
  obtain s' where "try_request env s req = (Some err, s')"
    using assms by (cases "try_request env s req") simp
  then show ?thesis
    using t by (simp add: handle_request_def handleListenError_def trigger_def Let_def)
qed

text \<open>
  C8. A request that fails (wrong method, unsupported type, or a parser failure) makes the
  handler trigger one \<open>error\<close> event carrying the error, before it ends the response;
  the failure is caught by the promise chain of the handler and nothing is thrown into
  the scheduler (an exception of \<open>res.end()\<close> too is a rejection of that chain). And when an \<open>error\<close> event has been observed by
  \<open>perform_run\<close>, on the program's events or the view manager's, then the promise of a
  run that was compiled and activated and comes to an end is rejected with
  \<open>Program terminated with errors\<close>; this includes the run in which \<open>program.done()\<close>
  and \<open>views_done\<close> resolve.
\<close>

theorem request_errors_fail_the_run:
  "(fst (try_request env s req) = Some err \<longrightarrow>
      triggered (snd (handle_request env s req)) = triggered s @ [(''error'', err)])
   \<and> (((''error'', e) \<in> set (program_events r) \<or> (''error'', e) \<in> set (view_mgr_events r))
        \<and> compiled r = Resolved () \<and> activate_throws r = None
        \<and> program_done r \<noteq> Unsettled
        \<and> (program_done r = Resolved () \<longrightarrow> views_done r \<noteq> Unsettled) \<longrightarrow>
      perform_run r = Rejected ''Program terminated with errors'')"
proof -
  have "had_an_error r"
    if "(''error'', e) \<in> set (program_events r) \<or> (''error'', e) \<in> set (view_mgr_events r)"
    using that by (force simp add: had_an_error_def)
  then show ?thesis
    using handle_request_failure [of env s req err] perform_run_had_error [of r] by blast
qed

theorem request_errors_fail_the_run_witness:
  "fst (try_request sample_env (sample_adapter [])
         ((json_request ([], None))\<lparr>req_content_type := Some ''text/xml''\<rparr>))
     = Some \<lparr>code = ''INVALID-TYPE'', message = ''INVALID-TYPE'', info = [(''types'', ''csv, json'')]\<rparr>
   \<and> triggered (snd (handle_request sample_env (sample_adapter [])
         ((json_request ([], None))\<lparr>req_content_type := Some ''text/xml''\<rparr>)))
     = [(''error'', \<lparr>code = ''INVALID-TYPE'', message = ''INVALID-TYPE'',
                      info = [(''types'', ''csv, json'')]\<rparr>)]
   \<and> perform_run \<lparr>compiled = Resolved (), activate_throws = None,
         program_events = triggered (snd (handle_request sample_env (sample_adapter [])
            ((json_request ([], None))\<lparr>req_content_type := Some ''text/xml''\<rparr>))),
         view_mgr_events = [], program_done = Resolved (), views_done = Resolved (),
         deactivate_throws = None\<rparr>
     = Rejected ''Program terminated with errors''"
proof -
  let ?req = "(json_request ([], None))\<lparr>req_content_type := Some ''text/xml''\<rparr>"
  let ?s = "sample_adapter []"
  let ?err = "\<lparr>code = ''INVALID-TYPE'', message = ''INVALID-TYPE'',
                info = [(''types'', ''csv, json'')]\<rparr>"
  let ?r = "\<lparr>compiled = Resolved (), activate_throws = None,
         program_events = triggered (snd (handle_request sample_env ?s ?req)),
         view_mgr_events = [], program_done = Resolved (), views_done = Resolved (),
         deactivate_throws = None\<rparr>"
  have f: "fst (try_request sample_env ?s ?req) = Some ?err"
    by (simp add: try_request_def sample_formats runtimeError_def sample_env_def)
       (simp add: json_request_def sample_adapter_def)
  have t0: "triggered ?s = []" by (simp add: sample_adapter_def)
  from request_errors_fail_the_run [of sample_env ?s ?req ?err ?err ?r] f t0
  have 1: "triggered (snd (handle_request sample_env ?s ?req)) = [(''error'', ?err)]"
    by simp
  have ev: "(''error'', ?err) \<in> set (program_events ?r)"
    by (simp add: 1)
  have r: "compiled ?r = Resolved ()" "activate_throws ?r = None" "program_done ?r \<noteq> Unsettled"
    "program_done ?r = Resolved () \<longrightarrow> views_done ?r \<noteq> Unsettled"
    by simp_all
  from request_errors_fail_the_run [of sample_env ?s ?req ?err ?err ?r] ev r
  have 2: "perform_run ?r = Rejected ''Program terminated with errors''"
    by blast
  from f 1 2 show ?thesis by blast
qed

subsection \<open>Points that leave the buffer without being read\<close>


text \<open>
  C10. The claim is that points ingested while no read is waiting stay in the buffer
  until a read returns them. \<open>pendingRead\<close> is never cleared, so this fails once a read
  has been suspended. First run: a read of limit 10 on the empty buffer times out after 50
  ms with \<open>{}\<close>; a request then brings the points 10, 20, 30, which the callback splices
  out of the buffer and hands to the \<open>resolve\<close> of the promise that is already settled;
  the buffer is empty, and the next read suspends. Second run: a read of limit 1 is
  resolved with the point 10 by a request bringing 10, 20, 30; a second request brings
  40 while no read is waiting, and 20 leaves the buffer, which is now 30, 40, while the
  promise still holds 10 only.
\<close>

theorem stale_pending_read_drops_points:
  "promises (run sample_env (sample_adapter []) [Ev_read 10, Ev_elapse 50])
     = [Fulfilled Empty_result]
   \<and> points (run sample_env (sample_adapter [])
        [Ev_read 10, Ev_elapse 50, Ev_request (json_request ([Array [10, 20, 30]], None))]) = []
   \<and> promises (run sample_env (sample_adapter [])
        [Ev_read 10, Ev_elapse 50, Ev_request (json_request ([Array [10, 20, 30]], None))])
       = [Fulfilled Empty_result]
   \<and> fst (read 10 (run sample_env (sample_adapter [])
        [Ev_read 10, Ev_elapse 50, Ev_request (json_request ([Array [10, 20, 30]], None))]))
       = Promise 1
   \<and> promises (run sample_env (sample_adapter [])
        [Ev_read 1, Ev_request (json_request ([Array [10, 20, 30]], None))])
       = [Fulfilled (Points_result [10])]
   \<and> points (run sample_env (sample_adapter [])
        [Ev_read 1, Ev_request (json_request ([Array [10, 20, 30]], None))]) = [20, 30]
   \<and> points (run sample_env (sample_adapter [])
        [Ev_read 1, Ev_request (json_request ([Array [10, 20, 30]], None)),
         Ev_request (json_request ([Array [40]], None))]) = [30, 40]
   \<and> promises (run sample_env (sample_adapter [])
        [Ev_read 1, Ev_request (json_request ([Array [10, 20, 30]], None)),
         Ev_request (json_request ([Array [40]], None))])
       = [Fulfilled (Points_result [10])]"
  by (simp add: run_def read_def elapse_def expire_def handle_request_def try_request_def
        sample_formats ingest_def readResult_def splice0_def resolve_def as_array_def
        sample_adapter_def sample_env_def new_response_def json_request_fields
        timer_delay_def Let_def)

end
